theory Spec2Isabelle
  imports Main "HOL-Library.Sublist"
begin

section \<open>Data model of the drill-by submenu\<close>

text \<open>
  The development follows \<^verbatim>\<open>DrillByMenuItems.tsx\<close>. A dimension is the \<^verbatim>\<open>Column\<close>
  of the source: a name, an optional verbose name and the group-by flag. JavaScript strings
  are modelled as \<^typ>\<open>string\<close>; a missing or \<^verbatim>\<open>null\<close> field is \<^const>\<open>None\<close>.
\<close>

record column =
  column_name :: string
  verbose_name :: "string option"
  groupby :: bool

text \<open>
  The \<^verbatim>\<open>Dataset\<close> returned by a load; its column list is optional
  (\<^verbatim>\<open>columns?: Column[]\<close>), the table name stands for the descriptive fields.
\<close>

record dataset =
  table_name :: string
  result_columns :: "column list option"

text \<open>
  Values found in the form data, which is indexed by arbitrary keys
  (\<^verbatim>\<open>BaseFormData & { [key: string]: any }\<close>). \<open>JOther\<close> stands for every value that is
  neither nullish, a string nor an array (numbers, booleans, ad-hoc column objects); the
  tag tells such values apart.
\<close>

datatype jsval = JUndefined | JNull | JString string | JArray "jsval list" | JOther nat

record form_data =
  datasource :: string
  viz_type :: string
  x_axis :: jsval
  other_fields :: "string \<Rightarrow> jsval"

text \<open>Property access \<^verbatim>\<open>formData[key]\<close>.\<close>

definition fd_get :: "form_data \<Rightarrow> string \<Rightarrow> jsval" where
  "fd_get fd key =
     (if key = ''datasource'' then JString (datasource fd)
      else if key = ''viz_type'' then JString (viz_type fd)
      else if key = ''x_axis'' then x_axis fd
      else other_fields fd key)"

text \<open>
  The drill anchor (\<^verbatim>\<open>ContextMenuFilters['drillBy']\<close>); the component reads only the
  name of the group-by field, and guards against its absence.
\<close>

record drillBy =
  groupbyFieldName :: "string option"

record props =
  drillByConfig :: "drillBy option"
  formData :: form_data
  excludedColumns :: "column list option"
  openNewModal :: bool
  isOpen :: bool

text \<open>
  The module-level collaborators: whether an extension is registered under
  \<^verbatim>\<open>load.drillby.options\<close>, and the chart metadata registry, which gives the behaviours
  of a chart type when that type is registered.
\<close>

datatype behavior = InteractiveChart | NativeFilter | DrillToDetail | DrillBy

record env =
  loadDrillByOptions :: bool
  chartBehaviors :: "string \<Rightarrow> behavior list option"

section \<open>Candidate filtering\<close>

text \<open>
  Modelled from the spec: \<^verbatim>\<open>ensureIsArray\<close> is imported from \<^verbatim>\<open>@superset-ui/core\<close> and
  is not among the sources. The spec has the anchor's group-by field hold one value or
  several and treats an absent field as no exclusions: an absent (undefined or null) value
  means no entries, an array is taken as it is, a lone value is a one-element array.
\<close>

fun ensureIsArray :: "jsval \<Rightarrow> jsval list" where
  "ensureIsArray JUndefined = []"
| "ensureIsArray JNull = []"
| "ensureIsArray (JArray vs) = vs"
| "ensureIsArray v = [v]"

text \<open>
  Modelled from the spec: the same \<^verbatim>\<open>ensureIsArray\<close> at the type \<^verbatim>\<open>Column[] | undefined\<close>
  of \<^verbatim>\<open>excludedColumns\<close> and of \<^verbatim>\<open>result.columns\<close>.
\<close>

fun ensureIsArray_opt :: "'a list option \<Rightarrow> 'a list" where
  "ensureIsArray_opt None = []"
| "ensureIsArray_opt (Some xs) = xs"

text \<open>\<^verbatim>\<open>drillByConfig?.groupbyFieldName\<close>\<close>

definition groupbyFieldName_of :: "drillBy option \<Rightarrow> string option" where
  "groupbyFieldName_of cfg = (case cfg of None \<Rightarrow> None | Some c \<Rightarrow> groupbyFieldName c)"

text \<open>\<^verbatim>\<open>drillByConfig?.groupbyFieldName ?? ''\<close>\<close>

definition groupbyField_key :: "drillBy option \<Rightarrow> string" where
  "groupbyField_key cfg = (case groupbyFieldName_of cfg of None \<Rightarrow> '''' | Some k \<Rightarrow> k)"

text \<open>
  The argument of \<^verbatim>\<open>setColumns\<close> in \<^verbatim>\<open>loadOptions\<close>: the two chained \<^verbatim>\<open>filter\<close> calls over
  \<^verbatim>\<open>ensureIsArray(result.columns)\<close>. \<^verbatim>\<open>includes\<close> and \<^verbatim>\<open>!==\<close> compare a column name with
  a form-data value, which can equal it only when it is that string.
\<close>

definition filterCandidates ::
  "column list option \<Rightarrow> form_data \<Rightarrow> drillBy option \<Rightarrow> column list option \<Rightarrow> column list" where
  "filterCandidates raw fd cfg excluded =
     filter
       (\<lambda>c. \<not> List.member (ensureIsArray (fd_get fd (groupbyField_key cfg))) (JString (column_name c))
            \<and> JString (column_name c) \<noteq> x_axis fd
            \<and> list_all (\<lambda>excludedCol. column_name excludedCol \<noteq> column_name c)
                 (ensureIsArray_opt excluded))
       (filter (\<lambda>c. groupby c) (ensureIsArray_opt raw))"

section \<open>Search filtering\<close>

text \<open>
  A JavaScript string is modelled by \<^typ>\<open>string\<close>, whose characters are the code points
  U+0000 to U+00FF. On these \<^verbatim>\<open>String.prototype.toLowerCase\<close> works character by
  character: it maps the letters A to Z and the letters U+00C0 to U+00DE, the multiplication
  sign U+00D7 excepted, to the letter 32 code points further on, and leaves every other
  character as it is.
\<close>

definition upper_letters :: string where
  "upper_letters =
     ''ABCDEFGHIJKLMNOPQRSTUVWXYZ'' @
     [CHR 0xC0, CHR 0xC1, CHR 0xC2, CHR 0xC3, CHR 0xC4, CHR 0xC5, CHR 0xC6, CHR 0xC7,
      CHR 0xC8, CHR 0xC9, CHR 0xCA, CHR 0xCB, CHR 0xCC, CHR 0xCD, CHR 0xCE, CHR 0xCF,
      CHR 0xD0, CHR 0xD1, CHR 0xD2, CHR 0xD3, CHR 0xD4, CHR 0xD5, CHR 0xD6,
      CHR 0xD8, CHR 0xD9, CHR 0xDA, CHR 0xDB, CHR 0xDC, CHR 0xDD, CHR 0xDE]"

definition lower_letters :: string where
  "lower_letters =
     ''abcdefghijklmnopqrstuvwxyz'' @
     [CHR 0xE0, CHR 0xE1, CHR 0xE2, CHR 0xE3, CHR 0xE4, CHR 0xE5, CHR 0xE6, CHR 0xE7,
      CHR 0xE8, CHR 0xE9, CHR 0xEA, CHR 0xEB, CHR 0xEC, CHR 0xED, CHR 0xEE, CHR 0xEF,
      CHR 0xF0, CHR 0xF1, CHR 0xF2, CHR 0xF3, CHR 0xF4, CHR 0xF5, CHR 0xF6,
      CHR 0xF8, CHR 0xF9, CHR 0xFA, CHR 0xFB, CHR 0xFC, CHR 0xFD, CHR 0xFE]"

definition toLowerChar :: "char \<Rightarrow> char" where
  "toLowerChar ch =
     (case map_of (zip upper_letters lower_letters) ch of None \<Rightarrow> ch | Some l \<Rightarrow> l)"

definition toLowerCase :: "string \<Rightarrow> string" where
  "toLowerCase s = map toLowerChar s"

text \<open>\<^verbatim>\<open>String.prototype.includes\<close>: the needle occurs at some position of the text.\<close>

fun str_includes :: "string \<Rightarrow> string \<Rightarrow> bool" where
  "str_includes [] needle = (needle = [])"
| "str_includes (ch # rest) needle = (prefix needle (ch # rest) \<or> str_includes rest needle)"

text \<open>
  The display label \<^verbatim>\<open>column.verbose_name || column.column_name\<close>: \<^verbatim>\<open>||\<close> falls back to the
  column name when the verbose name is missing, null or the empty string.
\<close>

definition display_label :: "column \<Rightarrow> string" where
  "display_label c =
     (case verbose_name c of
        None \<Rightarrow> column_name c
      | Some v \<Rightarrow> if v = [] then column_name c else v)"

text \<open>The memoised \<^verbatim>\<open>filteredColumns\<close>.\<close>

definition filteredColumns :: "column list \<Rightarrow> string \<Rightarrow> column list" where
  "filteredColumns cols searchInput =
     filter (\<lambda>c. str_includes (toLowerCase (display_label c)) (toLowerCase searchInput)) cols"


section \<open>Component state\<close>

text \<open>
  What \<^verbatim>\<open>loadOptions\<close> can catch: the reason an awaited request is rejected with, or the
  \<^verbatim>\<open>TypeError\<close> of reading a property of undefined or null. A request settles by being
  rejected or by resolving with a response; \<^verbatim>\<open>json.result\<close> of the response is untyped, and
  \<^const>\<open>None\<close> is a response whose result is missing or null.
\<close>

datatype error = LoadError nat | TypeError

datatype outcome = Resolved "dataset option" | Rejected error

text \<open>
  A call of \<^verbatim>\<open>loadOptions\<close> suspended at its \<^verbatim>\<open>await\<close>: the values captured by the closure
  of the effect that started it, and the promise it waits for. \<^verbatim>\<open>Number\<close> gives a number
  or NaN, the latter being \<^const>\<open>None\<close>.
\<close>

record load =
  load_config :: "drillBy option"
  load_formData :: form_data
  load_excluded :: "column list option"
  load_datasetId :: "nat option"
  load_promise :: nat

text \<open>
  The six \<^verbatim>\<open>useState\<close> cells of the component, the properties of its latest render, and
  what the component shares with its surroundings:
  \<^item> \<open>renderNo\<close> counts renders. \<^verbatim>\<open>handleInput\<close> is a new \<^verbatim>\<open>debounce\<close> wrapper on every
    render, so \<open>timers\<close> holds the armed timers as pairs of the render that made the
    wrapper and the value the timer will pass to \<^verbatim>\<open>setSearchInput\<close>;
  \<^item> \<open>supersetGetCache\<close> maps a key to a cached promise, \<open>promises\<close> gives every promise made
    so far its settlement (\<^const>\<open>None\<close> while pending), \<open>inflight\<close> are the suspended loads
    in the order they were started;
  \<^item> \<open>requests\<close>, \<open>extensionCalls\<close>, \<open>errorLog\<close>, \<open>toasts\<close>, \<open>onSelectionCalls\<close> and
    \<open>onClickCalls\<close> record the outbound calls: remote reads by endpoint, calls of the
    extension loader, \<^verbatim>\<open>logging.error\<close>, \<^verbatim>\<open>addDangerToast\<close> and the two callbacks.
  The text and focus of the DOM input, the verbose map and the popup offset are not part of
  the model.
\<close>

record state =
  props :: props
  isLoadingColumns :: bool
  searchInput :: string
  dataset :: "dataset option"
  columns :: "column list"
  showModal :: bool
  currentColumn :: "column option"
  renderNo :: nat
  timers :: "(nat \<times> string) list"
  supersetGetCache :: "(string \<times> nat) list"
  promises :: "outcome option list"
  inflight :: "load list"
  requests :: "string list"
  extensionCalls :: "(nat option \<times> form_data) list"
  errorLog :: "error list"
  toasts :: "string list"
  onSelectionCalls :: "(column \<times> drillBy option) list"
  onClickCalls :: nat

definition SHOW_COLUMNS_SEARCH_THRESHOLD :: nat where
  "SHOW_COLUMNS_SEARCH_THRESHOLD = 10"

definition showSearch :: "env \<Rightarrow> state \<Rightarrow> bool" where
  "showSearch e s \<longleftrightarrow> loadDrillByOptions e \<or> length (columns s) > SHOW_COLUMNS_SEARCH_THRESHOLD"

text \<open>
  \<^verbatim>\<open>hasDrillBy\<close> and \<^verbatim>\<open>handlesDimensionContextMenu\<close> are used for their truthiness: a string
  is truthy when it is present and not empty, the result of \<^verbatim>\<open>find\<close> when it is found.
\<close>

definition hasDrillBy :: "props \<Rightarrow> string option" where
  "hasDrillBy p = groupbyFieldName_of (drillByConfig p)"

definition handlesDimensionContextMenu :: "env \<Rightarrow> props \<Rightarrow> behavior option" where
  "handlesDimensionContextMenu e p =
     (case chartBehaviors e (viz_type (formData p)) of
        None \<Rightarrow> None
      | Some behaviors \<Rightarrow> find (\<lambda>behavior. behavior = DrillBy) behaviors)"

definition truthy :: "string option \<Rightarrow> bool" where
  "truthy v \<longleftrightarrow> v \<noteq> None \<and> v \<noteq> Some []"

definition rerender :: "state \<Rightarrow> state" where
  "rerender s = s\<lparr>renderNo := Suc (renderNo s)\<rparr>"

section \<open>Selection and the modal\<close>

text \<open>\<^verbatim>\<open>handleSelection\<close>, the click handler of a row, and \<^verbatim>\<open>closeModal\<close>.\<close>

definition handleSelection :: "column \<Rightarrow> state \<Rightarrow> state" where
  "handleSelection col s =
     (let s1 = s\<lparr>onClickCalls := Suc (onClickCalls s)\<rparr>;
          s2 = s1\<lparr>onSelectionCalls := onSelectionCalls s1 @ [(col, drillByConfig (props s))]\<rparr>;
          s3 = s2\<lparr>currentColumn := Some col\<rparr>
      in if openNewModal (props s) then s3\<lparr>showModal := True\<rparr> else s3)"

definition closeModal :: "state \<Rightarrow> state" where
  "closeModal s = s\<lparr>showModal := False\<rparr>"

section \<open>Rendering\<close>

datatype body = LoadingIndicator | RowList "column list" | NoColumnsFound

datatype modal = DrillByModal "column option" "drillBy option" form_data "dataset option"

datatype view =
    DisabledItem "string option"
  | SubMenu bool body "modal option"

definition tooltip :: "env \<Rightarrow> props \<Rightarrow> string option" where
  "tooltip e p =
     (if handlesDimensionContextMenu e p = None
      then Some ''Drill by is not yet supported for this chart type''
      else if \<not> truthy (hasDrillBy p)
      then Some ''Drill by is not available for this data point''
      else None)"

text \<open>
  What the component returns: the disabled item, or the submenu with its search bar (first
  component), its body and, beside it, the modal when \<^verbatim>\<open>showModal\<close> is set.
\<close>

definition render :: "env \<Rightarrow> state \<Rightarrow> view" where
  "render e s =
     (if handlesDimensionContextMenu e (props s) = None \<or> \<not> truthy (hasDrillBy (props s))
      then DisabledItem (tooltip e (props s))
      else SubMenu (showSearch e s)
             (if isLoadingColumns s then LoadingIndicator
              else if filteredColumns (columns s) (searchInput s) \<noteq> []
              then RowList (filteredColumns (columns s) (searchInput s))
              else NoColumnsFound)
             (if showModal s
              then Some (DrillByModal (currentColumn s) (drillByConfig (props s))
                           (formData (props s)) (dataset s))
              else None))"

text \<open>The body and the modal of a view; the disabled item has neither.\<close>

definition body_of :: "view \<Rightarrow> body option" where
  "body_of v = (case v of DisabledItem _ \<Rightarrow> None | SubMenu _ b _ \<Rightarrow> Some b)"

definition modal_of :: "view \<Rightarrow> modal option" where
  "modal_of v = (case v of DisabledItem _ \<Rightarrow> None | SubMenu _ _ m \<Rightarrow> m)"

text \<open>The \<^verbatim>\<open>dataset\<close> property of the modal, before the verbose map is added to it.\<close>

fun modal_dataset :: "modal \<Rightarrow> dataset option" where
  "modal_dataset (DrillByModal col cfg fd d) = d"

section \<open>Loading the options\<close>

text \<open>
  \<^verbatim>\<open>formData.datasource.split('__')[0]\<close>: the text before the first double underscore, the
  whole text when there is none.
\<close>

fun split_head :: "string \<Rightarrow> string" where
  "split_head (a # b # rest) =
     (if a = CHR ''_'' \<and> b = CHR ''_'' then [] else a # split_head (b # rest))"
| "split_head s = s"

text \<open>
  \<^verbatim>\<open>Number\<close> on the text of a dataset id and the way a template literal prints the number.
  A datasource key is a decimal id followed by the datasource type; a run of decimal digits
  is read as that number (the empty text as 0), and a text with any other character gives
  NaN here: signs, fractions, exponents and the other spellings \<^verbatim>\<open>Number\<close> understands are
  outside the model.
\<close>

definition digit_of :: "char \<Rightarrow> nat option" where
  "digit_of = map_of (zip ''0123456789'' [0, 1, 2, 3, 4, 5, 6, 7, 8, 9])"

definition Number :: "string \<Rightarrow> nat option" where
  "Number s =
     (if list_all (\<lambda>ch. digit_of ch \<noteq> None) s
      then Some (foldl (\<lambda>n ch. 10 * n + the (digit_of ch)) 0 s)
      else None)"

fun digits :: "nat \<Rightarrow> string" where
  "digits n =
     (if n < 10 then [''0123456789'' ! n]
      else digits (n div 10) @ [''0123456789'' ! (n mod 10)])"

declare digits.simps [simp del]

definition number_text :: "nat option \<Rightarrow> string" where
  "number_text n = (case n of None \<Rightarrow> ''NaN'' | Some k \<Rightarrow> digits k)"

definition datasetId_of :: "form_data \<Rightarrow> nat option" where
  "datasetId_of fd = Number (split_head (datasource fd))"

text \<open>The text \<^verbatim>\<open>rison.encode\<close> gives for the column selection of the source.\<close>

definition queryString :: string where
  "queryString =
     ''(columns:!(table_name,owners.first_name,owners.last_name,'' @
     ''created_by.first_name,created_by.last_name,created_on_humanized,'' @
     ''changed_by.first_name,changed_by.last_name,changed_on_humanized,'' @
     ''columns.column_name,columns.verbose_name,columns.groupby))''"

definition endpoint :: "nat option \<Rightarrow> string" where
  "endpoint datasetId = ''/api/v1/dataset/'' @ number_text datasetId @ ''?q='' @ queryString"

definition promise_state :: "state \<Rightarrow> nat \<Rightarrow> outcome option" where
  "promise_state s pid = (if pid < length (promises s) then promises s ! pid else None)"

text \<open>
  Modelled from the spec: \<^verbatim>\<open>cachedSupersetGet\<close> of \<^verbatim>\<open>src/utils/cachedSupersetGet\<close> is not
  among the sources. It is the caching remote read, keyed by dataset id plus the fixed
  field-selection query, that is, by the endpoint it is given: an endpoint found in the
  cache is served from the cached entry without a request; otherwise a request is issued
  and its promise is stored under the endpoint, so a failed request stays in the cache
  until its entry is deleted.
\<close>

definition cachedSupersetGet :: "string \<Rightarrow> state \<Rightarrow> nat \<times> state" where
  "cachedSupersetGet ep s =
     (case map_of (supersetGetCache s) ep of
        Some pid \<Rightarrow> (pid, s)
      | None \<Rightarrow>
          (length (promises s),
           s\<lparr>promises := promises s @ [None],
             requests := requests s @ [ep],
             supersetGetCache := supersetGetCache s @ [(ep, length (promises s))]\<rparr>))"

text \<open>The extension loader returns a promise of its own on every call.\<close>

definition callLoadDrillByOptions :: "nat option \<Rightarrow> form_data \<Rightarrow> state \<Rightarrow> nat \<times> state" where
  "callLoadDrillByOptions datasetId fd s =
     (length (promises s),
      s\<lparr>promises := promises s @ [None],
        extensionCalls := extensionCalls s @ [(datasetId, fd)]\<rparr>)"

text \<open>\<^verbatim>\<open>supersetGetCache.delete(key)\<close>\<close>

definition cache_delete :: "string \<Rightarrow> (string \<times> nat) list \<Rightarrow> (string \<times> nat) list" where
  "cache_delete key cache = filter (\<lambda>entry. fst entry \<noteq> key) cache"

text \<open>
  The body of \<^verbatim>\<open>loadOptions\<close> after the \<^verbatim>\<open>await\<close>. The \<^verbatim>\<open>try\<close> block throws what the
  awaited promise was rejected with. Otherwise it runs \<^verbatim>\<open>setDataset(result)\<close> and then
  reads \<^verbatim>\<open>result.columns\<close>, which throws when the result is missing or null, and else sets
  the candidates, filtered with the inputs the closure captured. A throw is \<^const>\<open>Inl\<close>, with
  the error and the state in which it is thrown.
\<close>

definition try_block :: "load \<Rightarrow> outcome \<Rightarrow> state \<Rightarrow> (error \<times> state) + state" where
  "try_block l out s =
     (case out of
        Rejected err \<Rightarrow> Inl (err, s)
      | Resolved result \<Rightarrow>
          (let s1 = s\<lparr>dataset := result\<rparr>
           in case result of
                None \<Rightarrow> Inl (TypeError, s1)
              | Some r \<Rightarrow>
                  Inr (s1\<lparr>columns := filterCandidates (result_columns r) (load_formData l)
                                       (load_config l) (load_excluded l)\<rparr>)))"

definition catch_block :: "load \<Rightarrow> error \<Rightarrow> state \<Rightarrow> state" where
  "catch_block l err s =
     s\<lparr>errorLog := errorLog s @ [err],
       supersetGetCache :=
         cache_delete (''/api/v1/dataset/'' @ number_text (load_datasetId l)) (supersetGetCache s),
       toasts := toasts s @ [''Failed to load dimensions for drill by'']\<rparr>"

definition finally_block :: "state \<Rightarrow> state" where
  "finally_block s = s\<lparr>isLoadingColumns := False\<rparr>"

text \<open>
  The settlement of the promise that \<^verbatim>\<open>loadOptions\<close> itself returns: \<^const>\<open>Inl\<close> would be a
  rejection reaching the caller.
\<close>

definition loadOptions_resume :: "load \<Rightarrow> outcome \<Rightarrow> state \<Rightarrow> error + state" where
  "loadOptions_resume l out s =
     (case try_block l out s of
        Inr s' \<Rightarrow> Inr (finally_block s')
      | Inl (err, s') \<Rightarrow> Inr (finally_block (catch_block l err s')))"

text \<open>The effect calls \<^verbatim>\<open>loadOptions()\<close> and drops the promise it returns.\<close>

definition run_continuation :: "outcome \<Rightarrow> load \<Rightarrow> state \<Rightarrow> state" where
  "run_continuation out l s = (case loadOptions_resume l out s of Inr s' \<Rightarrow> s' | Inl _ \<Rightarrow> s)"

text \<open>
  \<^verbatim>\<open>loadOptions\<close> up to its \<^verbatim>\<open>await\<close>. Awaiting a promise that has settled already resumes
  the function before any other event is handled.
\<close>

definition loadOptions_start :: "env \<Rightarrow> state \<Rightarrow> state" where
  "loadOptions_start e s =
     (let fd = formData (props s);
          datasetId = datasetId_of fd;
          s1 = s\<lparr>isLoadingColumns := True\<rparr>;
          (pid, s2) = (if loadDrillByOptions e then callLoadDrillByOptions datasetId fd s1
                       else cachedSupersetGet (endpoint datasetId) s1);
          l = \<lparr>load_config = drillByConfig (props s), load_formData = fd,
               load_excluded = excludedColumns (props s), load_datasetId = datasetId,
               load_promise = pid\<rparr>
      in case promise_state s2 pid of
           Some out \<Rightarrow> run_continuation out l s2
         | None \<Rightarrow> s2\<lparr>inflight := inflight s2 @ [l]\<rparr>)"

text \<open>The effect that loads the options, with its guard.\<close>

definition load_effect :: "env \<Rightarrow> state \<Rightarrow> state" where
  "load_effect e s =
     (if handlesDimensionContextMenu e (props s) \<noteq> None \<and> truthy (hasDrillBy (props s))
      then loadOptions_start e s else s)"

text \<open>The effect on \<^verbatim>\<open>open\<close>: focus when open, otherwise reset the search input.\<close>

definition open_effect :: "state \<Rightarrow> state" where
  "open_effect s = (if isOpen (props s) then s else s\<lparr>searchInput := []\<rparr>)"

section \<open>Events\<close>

text \<open>
  What can happen to a mounted component, one event at a time:
  \<^item> \<open>ChangeInputs\<close>: the parent renders it with another anchor, form data or exclusion
    list (another object, be it of the same content), so the load effect runs again;
  \<^item> \<open>SetOpen\<close>: the parent changes \<^verbatim>\<open>open\<close>, so the effect on \<^verbatim>\<open>open\<close> runs;
  \<^item> \<open>Settle\<close>: a pending promise resolves or is rejected, and the loads awaiting it resume
    in the order they were started;
  \<^item> \<open>Keystroke\<close>: the search input changes; the debounced \<^verbatim>\<open>handleInput\<close> of the current
    render restarts its timer. It needs the input to be rendered;
  \<^item> \<open>TimerFire\<close>: an armed debounce timer expires and calls \<^verbatim>\<open>setSearchInput\<close>;
  \<^item> \<open>ClickRow\<close>: a row is clicked, which needs that row to be rendered;
  \<^item> \<open>CloseModal\<close>: the modal calls \<^verbatim>\<open>onHideModal\<close>.
\<close>

datatype event =
    ChangeInputs "drillBy option" form_data "column list option"
  | SetOpen bool
  | Settle nat outcome
  | Keystroke string
  | TimerFire nat
  | ClickRow column
  | CloseModal

definition settle :: "nat \<Rightarrow> outcome \<Rightarrow> state \<Rightarrow> state" where
  "settle pid out s =
     (if pid < length (promises s) \<and> promises s ! pid = None
      then fold (run_continuation out)
             (filter (\<lambda>l. load_promise l = pid) (inflight s))
             (s\<lparr>promises := (promises s)[pid := Some out],
                inflight := filter (\<lambda>l. load_promise l \<noteq> pid) (inflight s)\<rparr>)
      else s)"

definition handleInput :: "string \<Rightarrow> state \<Rightarrow> state" where
  "handleInput v s =
     s\<lparr>timers := filter (\<lambda>t. fst t \<noteq> renderNo s) (timers s) @ [(renderNo s, v)]\<rparr>"

definition rows_rendered :: "env \<Rightarrow> state \<Rightarrow> column list" where
  "rows_rendered e s = (case render e s of SubMenu _ (RowList cols) _ \<Rightarrow> cols | _ \<Rightarrow> [])"

definition input_rendered :: "env \<Rightarrow> state \<Rightarrow> bool" where
  "input_rendered e s = (case render e s of SubMenu shown _ _ \<Rightarrow> shown | _ \<Rightarrow> False)"

fun step :: "env \<Rightarrow> event \<Rightarrow> state \<Rightarrow> state" where
  "step e (ChangeInputs cfg fd excluded) s =
     rerender (load_effect e
       (s\<lparr>props := (props s)\<lparr>drillByConfig := cfg, formData := fd, excludedColumns := excluded\<rparr>\<rparr>))"
| "step e (SetOpen b) s =
     (if b = isOpen (props s) then s
      else rerender (open_effect (s\<lparr>props := (props s)\<lparr>isOpen := b\<rparr>\<rparr>)))"
| "step e (Settle pid out) s = rerender (settle pid out s)"
| "step e (Keystroke v) s = (if input_rendered e s then handleInput v s else s)"
| "step e (TimerFire i) s =
     (if i < length (timers s)
      then rerender (s\<lparr>searchInput := snd (timers s ! i),
                      timers := take i (timers s) @ drop (Suc i) (timers s)\<rparr>)
      else s)"
| "step e (ClickRow col) s =
     (if col \<in> set (rows_rendered e s) then rerender (handleSelection col s) else s)"
| "step e CloseModal s = rerender (closeModal s)"

fun run :: "env \<Rightarrow> event list \<Rightarrow> state \<Rightarrow> state" where
  "run e [] s = s"
| "run e (ev # evs) s = run e evs (step e ev s)"

text \<open>
  Mounting: the initial values of the state cells, nothing cached, pending or recorded,
  then the two effects of the first render.
\<close>

definition initial :: "props \<Rightarrow> state" where
  "initial p =
     \<lparr>props = p, isLoadingColumns = True, searchInput = [], dataset = None, columns = [],
      showModal = False, currentColumn = None, renderNo = 0, timers = [],
      supersetGetCache = [], promises = [], inflight = [], requests = [],
      extensionCalls = [], errorLog = [], toasts = [], onSelectionCalls = [],
      onClickCalls = 0\<rparr>"

definition mount :: "env \<Rightarrow> props \<Rightarrow> state" where
  "mount e p = load_effect e (open_effect (initial p))"

fun is_TimerFire :: "event \<Rightarrow> bool" where
  "is_TimerFire (TimerFire i) = True"
| "is_TimerFire ev = False"

section \<open>Example inputs\<close>

text \<open>
  A registry in which pie charts support drill-by and tables do not, a form data whose
  group-by field holds one column and whose series field holds another, two anchors over
  it, and a dataset of four groupable columns.
\<close>

definition ex_behaviors :: "string \<Rightarrow> behavior list option" where
  "ex_behaviors v =
     (if v = ''pie'' then Some [InteractiveChart, DrillToDetail, DrillBy]
      else if v = ''table'' then Some [InteractiveChart]
      else None)"

definition ex_env :: env where
  "ex_env = \<lparr>loadDrillByOptions = False, chartBehaviors = ex_behaviors\<rparr>"

definition ex_env_extension :: env where
  "ex_env_extension = \<lparr>loadDrillByOptions = True, chartBehaviors = ex_behaviors\<rparr>"

definition ex_formData :: form_data where
  "ex_formData =
     \<lparr>datasource = ''12__table'', viz_type = ''pie'', x_axis = JString ''year'',
      other_fields = (\<lambda>key. if key = ''groupby'' then JArray [JString ''country'']
                             else if key = ''series'' then JString ''region''
                             else JUndefined)\<rparr>"

definition ex_anchorA :: drillBy where
  "ex_anchorA = \<lparr>groupbyFieldName = Some ''groupby''\<rparr>"

definition ex_anchorB :: drillBy where
  "ex_anchorB = \<lparr>groupbyFieldName = Some ''series''\<rparr>"

definition ex_props :: props where
  "ex_props =
     \<lparr>drillByConfig = Some ex_anchorA, formData = ex_formData, excludedColumns = None,
      openNewModal = True, isOpen = True\<rparr>"

definition ex_col :: "string \<Rightarrow> column" where
  "ex_col name = \<lparr>column_name = name, verbose_name = None, groupby = True\<rparr>"

definition ex_dataset :: "string \<Rightarrow> dataset" where
  "ex_dataset name =
     \<lparr>table_name = name,
      result_columns =
        Some [ex_col ''country'', ex_col ''region'', ex_col ''year'', ex_col ''city'']\<rparr>"

text \<open>
  The load that mounting with the example properties suspends; the component after its
  first load has resolved; and the component with the extension loader after the anchor has
  changed during the first load and the second load has resolved first. \<open>ex_columns n\<close> are
  \<open>n\<close> distinct columns.
\<close>

definition ex_loadA :: load where
  "ex_loadA =
     \<lparr>load_config = Some ex_anchorA, load_formData = ex_formData, load_excluded = None,
      load_datasetId = Some 12, load_promise = 0\<rparr>"

definition ex_loaded :: state where
  "ex_loaded = run ex_env [Settle 0 (Resolved (Some (ex_dataset ''sales'')))] (mount ex_env ex_props)"

definition ex_two_loads :: state where
  "ex_two_loads =
     run ex_env_extension
       [ChangeInputs (Some ex_anchorB) ex_formData None, Settle 1 (Resolved (Some (ex_dataset ''B'')))]
       (mount ex_env_extension ex_props)"

definition ex_columns :: "nat \<Rightarrow> column list" where
  "ex_columns n = map (\<lambda>i. ex_col (replicate (Suc i) CHR ''a'')) [0..<n]"

section \<open>Properties of the filters\<close>


lemma member_iff_set: "List.member xs x \<longleftrightarrow> x \<in> set xs"
  by (induction xs) auto

lemma in_ensureIsArray_iff:
  "JString name \<in> set (ensureIsArray v) \<longleftrightarrow>
     v = JString name \<or> (\<exists>vs. v = JArray vs \<and> JString name \<in> set vs)"
  by (cases v) auto

lemma not_excluded_iff:
  "list_all (\<lambda>excludedCol. column_name excludedCol \<noteq> column_name c) (ensureIsArray_opt excluded) \<longleftrightarrow>
     \<not> (\<exists>cols. excluded = Some cols \<and> column_name c \<in> column_name ` set cols)"
proof (cases excluded)
  case None
  then show ?thesis by simp
next
  case (Some cols)
  have "(\<forall>x\<in>set cols. column_name x \<noteq> column_name c) \<longleftrightarrow>
          column_name c \<notin> column_name ` set cols"
    by (metis imageE imageI)
  with Some show ?thesis by (simp add: list_all_iff)
qed

text \<open>
  Claim C3. A dimension is among the candidates exactly when it is one of the raw
  dimensions, is marked group-by, is not named by the x-axis field of the form data, is not
  named in the value of the anchor's group-by field of the form data (be that value a
  single name or an array of names), and is not named in the excluded-columns list. So none
  of the four kinds of dimension is ever returned; and when the anchor's group-by field is
  absent from the form data, or no excluded list is given, the corresponding condition
  excludes nothing.
\<close>

theorem filterCandidates_membership:
  "c \<in> set (filterCandidates raw fd cfg excluded) \<longleftrightarrow>
     c \<in> set (ensureIsArray_opt raw)
     \<and> groupby c
     \<and> JString (column_name c) \<noteq> x_axis fd
     \<and> fd_get fd (groupbyField_key cfg) \<noteq> JString (column_name c)
     \<and> \<not> (\<exists>vs. fd_get fd (groupbyField_key cfg) = JArray vs \<and> JString (column_name c) \<in> set vs)
     \<and> \<not> (\<exists>cols. excluded = Some cols \<and> column_name c \<in> column_name ` set cols)"
  unfolding filterCandidates_def
  by (auto simp: member_iff_set in_ensureIsArray_iff not_excluded_iff)

theorem filterCandidates_membership_witness:
  "set (filterCandidates (result_columns (ex_dataset ''sales'')) ex_formData (Some ex_anchorA)
          (Some [ex_col ''region''])) = {ex_col ''city''}
   \<and> fd_get ex_formData (groupbyField_key (Some ex_anchorA)) = JArray [JString ''country'']
   \<and> x_axis ex_formData = JString ''year''
   \<and> ex_col ''city'' \<in> set (filterCandidates (Some [ex_col ''city'']) ex_formData None None)"
proof -
  have "ex_col ''city'' \<in> set (filterCandidates (Some [ex_col ''city'']) ex_formData None None)"
    using filterCandidates_membership
      [of "ex_col ''city''" "Some [ex_col ''city'']" ex_formData None None]
    by (simp add: ex_col_def ex_formData_def fd_get_def groupbyField_key_def
        groupbyFieldName_of_def)
  moreover have "set (filterCandidates (result_columns (ex_dataset ''sales'')) ex_formData
      (Some ex_anchorA) (Some [ex_col ''region''])) = {ex_col ''city''}"
    by code_simp
  moreover have "fd_get ex_formData (groupbyField_key (Some ex_anchorA)) = JArray [JString ''country'']"
    by code_simp
  moreover have "x_axis ex_formData = JString ''year''"
    by code_simp
  ultimately show ?thesis by simp
qed









section \<open>Resuming a load\<close>

lemma run_continuation_Resolved:
  "run_continuation (Resolved (Some result)) l s =
     s\<lparr>dataset := Some result,
       columns := filterCandidates (result_columns result) (load_formData l) (load_config l)
                    (load_excluded l),
       isLoadingColumns := False\<rparr>"
  by (simp add: run_continuation_def loadOptions_resume_def try_block_def finally_block_def)

lemma run_continuation_no_result:
  "run_continuation (Resolved None) l s =
     finally_block (catch_block l TypeError (s\<lparr>dataset := None\<rparr>))"
  by (simp add: run_continuation_def loadOptions_resume_def try_block_def)

lemma run_continuation_Rejected:
  "run_continuation (Rejected err) l s = finally_block (catch_block l err s)"
  by (simp add: run_continuation_def loadOptions_resume_def try_block_def)

lemmas eval_defs =
  mount_def initial_def load_effect_def open_effect_def loadOptions_start_def
  handlesDimensionContextMenu_def hasDrillBy_def truthy_def groupbyFieldName_of_def
  callLoadDrillByOptions_def cachedSupersetGet_def promise_state_def settle_def
  rerender_def datasetId_of_def Number_def digit_of_def
  run_continuation_Resolved run_continuation_no_result run_continuation_Rejected
  finally_block_def catch_block_def
  ex_env_def ex_env_extension_def ex_behaviors_def ex_props_def ex_formData_def
  ex_anchorA_def ex_anchorB_def Let_def

section \<open>Properties of rendering and selection\<close>

lemma handles_None_iff:
  "handlesDimensionContextMenu e p = None \<longleftrightarrow>
     (\<forall>behaviors. chartBehaviors e (viz_type (formData p)) = Some behaviors \<longrightarrow>
        DrillBy \<notin> set behaviors)"
  by (auto simp: handlesDimensionContextMenu_def find_None_iff split: option.splits)

text \<open>
  Claim C7. When the behaviours registered for the chart type do not include drill-by (or
  the chart type is not registered), the component renders the disabled item with the
  tooltip that drill-by is not yet supported for this chart type, whatever the anchor is.
  When they include it and the anchor gives no group-by field name (no anchor, no name, or
  the empty name), it renders the disabled item with the tooltip that drill-by is not
  available for this data point. In both cases the load effect leaves the state as it is:
  no request, no call of the extension loader, no suspended load.
\<close>

theorem disabled_item_and_no_load:
  "((\<forall>behaviors. chartBehaviors e (viz_type (formData (props s))) = Some behaviors \<longrightarrow>
        DrillBy \<notin> set behaviors) \<longrightarrow>
      render e s = DisabledItem (Some ''Drill by is not yet supported for this chart type'')
      \<and> load_effect e s = s)
   \<and> ((\<exists>behaviors. chartBehaviors e (viz_type (formData (props s))) = Some behaviors
          \<and> DrillBy \<in> set behaviors)
       \<and> groupbyFieldName_of (drillByConfig (props s)) \<in> {None, Some []} \<longrightarrow>
      render e s = DisabledItem (Some ''Drill by is not available for this data point'')
      \<and> load_effect e s = s)"
proof -
  have "handlesDimensionContextMenu e (props s) \<noteq> None"
    if "chartBehaviors e (viz_type (formData (props s))) = Some behaviors"
      and "DrillBy \<in> set behaviors" for behaviors
    using that by (auto simp: handles_None_iff)
  then show ?thesis
    by (auto simp: handles_None_iff [symmetric] render_def tooltip_def load_effect_def
        truthy_def hasDrillBy_def)
qed

theorem disabled_item_and_no_load_witness:
  "chartBehaviors ex_env ''table'' = Some [InteractiveChart]
   \<and> render ex_env (ex_loaded\<lparr>props := ex_props\<lparr>formData := ex_formData\<lparr>viz_type := ''table''\<rparr>\<rparr>\<rparr>)
       = DisabledItem (Some ''Drill by is not yet supported for this chart type'')
   \<and> chartBehaviors ex_env ''pie'' = Some [InteractiveChart, DrillToDetail, DrillBy]
   \<and> render ex_env (ex_loaded\<lparr>props := ex_props\<lparr>drillByConfig := None\<rparr>\<rparr>)
       = DisabledItem (Some ''Drill by is not available for this data point'')
   \<and> requests (load_effect ex_env (ex_loaded\<lparr>props := ex_props\<lparr>drillByConfig := None\<rparr>\<rparr>))
       = requests ex_loaded"
proof -
  let ?unsupported = "ex_loaded\<lparr>props := ex_props\<lparr>formData := ex_formData\<lparr>viz_type := ''table''\<rparr>\<rparr>\<rparr>"
  let ?no_anchor = "ex_loaded\<lparr>props := ex_props\<lparr>drillByConfig := None\<rparr>\<rparr>"
  have a: "chartBehaviors ex_env (viz_type (formData (props ?unsupported))) = Some [InteractiveChart]"
    and b: "chartBehaviors ex_env (viz_type (formData (props ?no_anchor)))
              = Some [InteractiveChart, DrillToDetail, DrillBy]"
    and c: "groupbyFieldName_of (drillByConfig (props ?no_anchor)) = None"
    and d: "chartBehaviors ex_env ''table'' = Some [InteractiveChart]"
      "chartBehaviors ex_env ''pie'' = Some [InteractiveChart, DrillToDetail, DrillBy]"
    by (simp_all add: ex_env_def ex_behaviors_def ex_props_def ex_formData_def
        groupbyFieldName_of_def)
  from disabled_item_and_no_load [of ex_env ?unsupported] a
  have "render ex_env ?unsupported
          = DisabledItem (Some ''Drill by is not yet supported for this chart type'')"
    by simp
  moreover from disabled_item_and_no_load [of ex_env ?no_anchor] b c
  have "render ex_env ?no_anchor
          = DisabledItem (Some ''Drill by is not available for this data point'')
        \<and> load_effect ex_env ?no_anchor = ?no_anchor"
    by simp
  ultimately show ?thesis using d by simp
qed

text \<open>
  Claim C8. Selecting a dimension calls the click callback, calls the selection callback
  with the dimension and the drill anchor, and records the dimension as current, whatever
  the follow-up-modal flag is. The modal flag after the selection is set exactly when it was
  set before or the follow-up-modal flag is enabled; so a click on a rendered row while no
  modal is shown opens the modal, with that dimension, the anchor, the form data and the
  dataset, if the flag is enabled, and shows no modal if it is disabled.
\<close>

theorem handleSelection_effects:
  "onClickCalls (handleSelection col s) = Suc (onClickCalls s)
   \<and> onSelectionCalls (handleSelection col s) =
       onSelectionCalls s @ [(col, drillByConfig (props s))]
   \<and> currentColumn (handleSelection col s) = Some col
   \<and> showModal (handleSelection col s) = (showModal s \<or> openNewModal (props s))
   \<and> (col \<in> set (rows_rendered e s) \<and> \<not> showModal s \<longrightarrow>
        modal_of (render e (step e (ClickRow col) s)) =
          (if openNewModal (props s)
           then Some (DrillByModal (Some col) (drillByConfig (props s)) (formData (props s))
                        (dataset s))
           else None))"
proof -
  have "render e s \<noteq> DisabledItem (tooltip e (props s))" if "col \<in> set (rows_rendered e s)"
    using that by (auto simp: rows_rendered_def)
  then show ?thesis
    by (auto simp: handleSelection_def Let_def rerender_def render_def modal_of_def)
qed

theorem handleSelection_effects_witness:
  "ex_col ''city'' \<in> set (rows_rendered ex_env ex_loaded) \<and> \<not> showModal ex_loaded
   \<and> openNewModal (props ex_loaded)
   \<and> modal_of (render ex_env (step ex_env (ClickRow (ex_col ''city'')) ex_loaded)) =
       Some (DrillByModal (Some (ex_col ''city'')) (Some ex_anchorA) ex_formData
               (Some (ex_dataset ''sales'')))
   \<and> onSelectionCalls (handleSelection (ex_col ''city'') ex_loaded) =
       [(ex_col ''city'', Some ex_anchorA)]
   \<and> \<not> showModal (handleSelection (ex_col ''city'')
          (ex_loaded\<lparr>props := (props ex_loaded)\<lparr>openNewModal := False\<rparr>\<rparr>))
   \<and> onSelectionCalls (handleSelection (ex_col ''city'')
          (ex_loaded\<lparr>props := (props ex_loaded)\<lparr>openNewModal := False\<rparr>\<rparr>)) =
       [(ex_col ''city'', Some ex_anchorA)]"
proof -
  have a: "ex_col ''city'' \<in> set (rows_rendered ex_env ex_loaded)" by code_simp
  have b: "\<not> showModal ex_loaded" by code_simp
  have c: "openNewModal (props ex_loaded)" by code_simp
  have d: "drillByConfig (props ex_loaded) = Some ex_anchorA" "onSelectionCalls ex_loaded = []"
    "dataset ex_loaded = Some (ex_dataset ''sales'')"
    by code_simp+
  have e: "formData (props ex_loaded) = ex_formData"
    by (simp add: ex_loaded_def eval_defs)
  from handleSelection_effects [of "ex_col ''city''" ex_loaded ex_env]
    handleSelection_effects [of "ex_col ''city''"
      "ex_loaded\<lparr>props := (props ex_loaded)\<lparr>openNewModal := False\<rparr>\<rparr>" ex_env]
    a b c d e
  show ?thesis by simp
qed

text \<open>
  Claim C9. \<^verbatim>\<open>showSearch\<close> holds exactly when an extension loader is registered or there
  are more than 10 candidates, counted before the search filter; it is computed from the
  registration and the current candidate list on every render and is not a state cell.
  Whenever the submenu is rendered the search input is rendered exactly in that case; the
  disabled item has no search input.
\<close>

theorem showSearch_iff:
  "(showSearch e s \<longleftrightarrow> loadDrillByOptions e \<or> 10 < length (columns s))
   \<and> (body_of (render e s) \<noteq> None \<longrightarrow>
        (input_rendered e s \<longleftrightarrow> loadDrillByOptions e \<or> 10 < length (columns s)))"
  by (auto simp: showSearch_def SHOW_COLUMNS_SEARCH_THRESHOLD_def render_def
      input_rendered_def body_of_def split: if_splits)

theorem showSearch_iff_witness:
  "length (columns ex_loaded) = 2
   \<and> \<not> showSearch ex_env ex_loaded
   \<and> \<not> showSearch ex_env (ex_loaded\<lparr>columns := ex_columns 10\<rparr>)
   \<and> showSearch ex_env (ex_loaded\<lparr>columns := ex_columns 11\<rparr>)
   \<and> body_of (render ex_env (ex_loaded\<lparr>columns := ex_columns 11\<rparr>)) \<noteq> None
   \<and> input_rendered ex_env (ex_loaded\<lparr>columns := ex_columns 11\<rparr>)
   \<and> showSearch ex_env_extension ex_loaded"
proof -
  have b: "length (columns ex_loaded) = 2" by code_simp
  have c: "length (ex_columns 10) = 10" "length (ex_columns 11) = 11"
    by (simp_all add: ex_columns_def)
  have d: "\<not> loadDrillByOptions ex_env" "loadDrillByOptions ex_env_extension"
    by (simp_all add: ex_env_def ex_env_extension_def)
  have e: "body_of (render ex_env (ex_loaded\<lparr>columns := ex_columns 11\<rparr>)) \<noteq> None"
    by code_simp
  from showSearch_iff [of ex_env ex_loaded]
    showSearch_iff [of ex_env "ex_loaded\<lparr>columns := ex_columns 10\<rparr>"]
    showSearch_iff [of ex_env "ex_loaded\<lparr>columns := ex_columns 11\<rparr>"]
    showSearch_iff [of ex_env_extension ex_loaded]
    b c d e
  show ?thesis by simp
qed

section \<open>Properties of loading\<close>

text \<open>
  The anchor changes while the first load is in flight; the second load resolves first and
  the first load resolves afterwards. The component then holds the anchor of the second
  cycle together with the dataset of the first load and the candidates filtered for the
  first anchor, which are not the candidates of the second cycle.
\<close>

theorem stale_load_overwrites_newer_cycle:
  "let s = run ex_env_extension
             [ChangeInputs (Some ex_anchorB) ex_formData None,
              Settle 1 (Resolved (Some (ex_dataset ''B''))),
              Settle 0 (Resolved (Some (ex_dataset ''A'')))]
             (mount ex_env_extension ex_props)
   in drillByConfig (props s) = Some ex_anchorB
      \<and> inflight s = []
      \<and> dataset s = Some (ex_dataset ''A'')
      \<and> columns s = [ex_col ''region'', ex_col ''city'']
      \<and> columns s \<noteq> filterCandidates (result_columns (ex_dataset ''B'')) ex_formData
                        (Some ex_anchorB) None"
  by code_simp

text \<open>
  Claim C1, amended. The completion of a load is committed whether or not newer loads have
  been started: when a pending request resolves with a result, the loads awaiting it resume
  in the order they were started, and afterwards the dataset is that result and the
  candidates are its columns filtered with the inputs captured by the last of these loads.
  Nothing is assumed about the other loads, in flight or completed, so the state reflects
  the request that resolved last, and the newest cycle only when its request is that one.
\<close>

theorem settle_commits_completed_load:
  assumes "pid < length (promises s)" and "promises s ! pid = None"
    and "filter (\<lambda>l. load_promise l = pid) (inflight s) = ls @ [l]"
  shows "dataset (step e (Settle pid (Resolved (Some result))) s) = Some result
       \<and> columns (step e (Settle pid (Resolved (Some result))) s) =
           filterCandidates (result_columns result) (load_formData l) (load_config l)
             (load_excluded l)"
  using assms by (simp add: settle_def rerender_def run_continuation_Resolved)

lemma ex_two_loads_facts:
  "promises ex_two_loads = [None, Some (Resolved (Some (ex_dataset ''B'')))]"
  "inflight ex_two_loads = [ex_loadA]"
  "dataset ex_two_loads = Some (ex_dataset ''B'')"
  "drillByConfig (props ex_two_loads) = Some ex_anchorB"
  unfolding ex_two_loads_def ex_loadA_def
  by (simp_all add: eval_defs)

theorem settle_commits_completed_load_witness:
  "0 < length (promises ex_two_loads) \<and> promises ex_two_loads ! 0 = None
   \<and> filter (\<lambda>l. load_promise l = 0) (inflight ex_two_loads) = [] @ [ex_loadA]
   \<and> drillByConfig (props ex_two_loads) = Some ex_anchorB
   \<and> dataset ex_two_loads = Some (ex_dataset ''B'')
   \<and> dataset (step ex_env_extension (Settle 0 (Resolved (Some (ex_dataset ''A'')))) ex_two_loads)
       = Some (ex_dataset ''A'')
   \<and> columns (step ex_env_extension (Settle 0 (Resolved (Some (ex_dataset ''A'')))) ex_two_loads)
       = filterCandidates (result_columns (ex_dataset ''A'')) ex_formData (Some ex_anchorA) None"
proof -
  have a: "0 < length (promises ex_two_loads)" and b: "promises ex_two_loads ! 0 = None"
    and c: "filter (\<lambda>l. load_promise l = 0) (inflight ex_two_loads) = [] @ [ex_loadA]"
    by (simp_all add: ex_two_loads_facts ex_loadA_def)
  from settle_commits_completed_load [OF a b c, of ex_env_extension "ex_dataset ''A''"] a b c
  show ?thesis by (simp add: ex_two_loads_facts ex_loadA_def)
qed

lemma map_of_cache_delete:
  "k \<noteq> key \<Longrightarrow> map_of (cache_delete key cache) k = map_of cache k"
  by (induction cache) (auto simp: cache_delete_def)

lemma endpoint_not_deleted_key:
  "endpoint datasetId \<noteq> ''/api/v1/dataset/'' @ number_text datasetId"
  by (simp add: endpoint_def)

text \<open>
  Claim C2. The claim asks that a failed default fetch leaves no entry in the cache under
  the key it was stored with. The \<^verbatim>\<open>catch\<close> block deletes the key made of the path and
  the dataset id, while the fetch is cached under the endpoint, which has the query
  appended; so the block never changes what the cache holds for the endpoint of its load.
  For dataset 12: the first load issues one request and it is rejected; the entry is still
  cached afterwards; the load started by the next anchor, for the same dataset, issues no
  request and fails again at once on the cached rejection.
\<close>

theorem failed_fetch_keeps_cache_entry:
  "map_of (supersetGetCache (catch_block l err s)) (endpoint (load_datasetId l)) =
     map_of (supersetGetCache s) (endpoint (load_datasetId l))
   \<and> (let s1 = run ex_env [Settle 0 (Rejected (LoadError 0))] (mount ex_env ex_props);
           s2 = step ex_env (ChangeInputs (Some ex_anchorB) ex_formData None) s1
       in requests (mount ex_env ex_props) = [endpoint (Some 12)]
          \<and> supersetGetCache s1 = [(endpoint (Some 12), 0)]
          \<and> requests s2 = [endpoint (Some 12)]
          \<and> errorLog s2 = [LoadError 0, LoadError 0]
          \<and> inflight s2 = [])"
proof -
  have "map_of (supersetGetCache (catch_block l err s)) (endpoint (load_datasetId l)) =
     map_of (supersetGetCache s) (endpoint (load_datasetId l))"
    using map_of_cache_delete [OF endpoint_not_deleted_key, of "load_datasetId l"
        "supersetGetCache s"]
    by (simp add: catch_block_def)
  moreover have
    "(let s1 = run ex_env [Settle 0 (Rejected (LoadError 0))] (mount ex_env ex_props);
          s2 = step ex_env (ChangeInputs (Some ex_anchorB) ex_formData None) s1
      in requests (mount ex_env ex_props) = [endpoint (Some 12)]
         \<and> supersetGetCache s1 = [(endpoint (Some 12), 0)]
         \<and> requests s2 = [endpoint (Some 12)]
         \<and> errorLog s2 = [LoadError 0, LoadError 0]
         \<and> inflight s2 = [])"
    by code_simp
  ultimately show ?thesis by simp
qed

text \<open>
  A first load commits its candidates, the anchor changes, and the second load is rejected.
  The component then shows the rows of the first load, not the placeholder for no columns.
\<close>

theorem failed_reload_keeps_earlier_rows:
  "let s = run ex_env_extension
             [Settle 0 (Resolved (Some (ex_dataset ''A''))),
              ChangeInputs (Some ex_anchorB) ex_formData None,
              Settle 1 (Rejected (LoadError 0))]
             (mount ex_env_extension ex_props)
   in errorLog s = [LoadError 0]
      \<and> \<not> isLoadingColumns s
      \<and> body_of (render ex_env_extension s) = Some (RowList [ex_col ''region'', ex_col ''city''])
      \<and> body_of (render ex_env_extension s) \<noteq> Some NoColumnsFound"
  by code_simp

text \<open>
  Claim C6, amended. A load error is a rejected request or a response without a result, on
  which reading its columns throws. A load never reaches the caller as a rejection: the
  resumed \<^verbatim>\<open>loadOptions\<close> settles normally whatever the request settled with. On any load
  error the loading flag is cleared, exactly one more notification is emitted, the error is
  logged, and the candidate list is left as it was before the load. The submenu then
  renders from that list: the placeholder for no columns if no candidate in it matches the
  search text, in particular if it is empty as after a first load that fails, and
  otherwise the matching candidates that the earlier load left.
\<close>

theorem load_failure_is_absorbed:
  "(\<exists>s'. loadOptions_resume l out s = Inr s')
   \<and> ((\<exists>err thrown. try_block l out s = Inl (err, thrown)) \<longleftrightarrow>
        (\<exists>err. out = Rejected err) \<or> out = Resolved None)
   \<and> (try_block l out s = Inl (err, thrown) \<longrightarrow>
        (\<exists>s'. loadOptions_resume l out s = Inr s'
           \<and> \<not> isLoadingColumns s'
           \<and> toasts s' = toasts s @ [''Failed to load dimensions for drill by'']
           \<and> errorLog s' = errorLog s @ [err]
           \<and> columns s' = columns s
           \<and> (body_of (render e s) \<noteq> None \<longrightarrow>
                body_of (render e s') =
                  Some (if filteredColumns (columns s) (searchInput s) = [] then NoColumnsFound
                        else RowList (filteredColumns (columns s) (searchInput s))))))"
proof (cases out)
  case (Rejected rejection)
  then show ?thesis
    by (simp add: loadOptions_resume_def try_block_def finally_block_def catch_block_def
        render_def body_of_def)
next
  case (Resolved result)
  then show ?thesis
    by (cases result)
      (auto simp: loadOptions_resume_def try_block_def finally_block_def catch_block_def
        render_def body_of_def)
qed

theorem load_failure_is_absorbed_witness:
  "try_block ex_loadA (Rejected (LoadError 0)) (mount ex_env ex_props)
     = Inl (LoadError 0, mount ex_env ex_props)
   \<and> body_of (render ex_env (mount ex_env ex_props)) = Some LoadingIndicator
   \<and> (\<exists>s'. loadOptions_resume ex_loadA (Rejected (LoadError 0)) (mount ex_env ex_props) = Inr s'
        \<and> \<not> isLoadingColumns s'
        \<and> toasts s' = [''Failed to load dimensions for drill by'']
        \<and> errorLog s' = [LoadError 0]
        \<and> body_of (render ex_env s') = Some NoColumnsFound)
   \<and> try_block ex_loadA (Resolved None) ex_loaded = Inl (TypeError, ex_loaded\<lparr>dataset := None\<rparr>)
   \<and> body_of (render ex_env ex_loaded) = Some (RowList [ex_col ''region'', ex_col ''city''])
   \<and> (\<exists>s'. loadOptions_resume ex_loadA (Resolved None) ex_loaded = Inr s'
        \<and> \<not> isLoadingColumns s'
        \<and> toasts s' = [''Failed to load dimensions for drill by'']
        \<and> errorLog s' = [TypeError]
        \<and> body_of (render ex_env s') = Some (RowList [ex_col ''region'', ex_col ''city'']))"
proof -
  let ?m = "mount ex_env ex_props"
  have a: "try_block ex_loadA (Rejected (LoadError 0)) ?m = Inl (LoadError 0, ?m)"
    and a': "try_block ex_loadA (Resolved None) ex_loaded
               = Inl (TypeError, ex_loaded\<lparr>dataset := None\<rparr>)"
    by (simp_all add: try_block_def)
  have b: "body_of (render ex_env ?m) = Some LoadingIndicator"
    and b': "body_of (render ex_env ex_loaded) = Some (RowList [ex_col ''region'', ex_col ''city''])"
    by code_simp+
  have c: "toasts ?m = []" "errorLog ?m = []" "filteredColumns (columns ?m) (searchInput ?m) = []"
    and c': "toasts ex_loaded = []" "errorLog ex_loaded = []"
      "filteredColumns (columns ex_loaded) (searchInput ex_loaded)
         = [ex_col ''region'', ex_col ''city'']"
    by code_simp+
  from load_failure_is_absorbed
    [of ex_loadA "Rejected (LoadError 0)" ?m "LoadError 0" ?m ex_env] a b c
  have first: "\<exists>s'. loadOptions_resume ex_loadA (Rejected (LoadError 0)) ?m = Inr s'
        \<and> \<not> isLoadingColumns s'
        \<and> toasts s' = [''Failed to load dimensions for drill by'']
        \<and> errorLog s' = [LoadError 0]
        \<and> body_of (render ex_env s') = Some NoColumnsFound"
    by auto
  from load_failure_is_absorbed
    [of ex_loadA "Resolved None" ex_loaded TypeError "ex_loaded\<lparr>dataset := None\<rparr>" ex_env]
    a' b' c'
  have second: "\<exists>s'. loadOptions_resume ex_loadA (Resolved None) ex_loaded = Inr s'
        \<and> \<not> isLoadingColumns s'
        \<and> toasts s' = [''Failed to load dimensions for drill by'']
        \<and> errorLog s' = [TypeError]
        \<and> body_of (render ex_env s') = Some (RowList [ex_col ''region'', ex_col ''city''])"
    by auto
  from a a' b b' first second show ?thesis by (intro conjI)
qed

section \<open>Properties of the search text\<close>

text \<open>
  Claim C5. The claim asks that a keystroke entered just before the close never becomes
  the search text, so that a closed menu always has the empty search text. The effect on
  \<^verbatim>\<open>open\<close>, commented as resetting the search input when the menu is closed, resets the
  search text but leaves the debounce timer of \<^verbatim>\<open>handleInput\<close> armed. The first load
  resolves, the user types, and the menu is closed: the search text is empty and the timer
  of the keystroke is still armed. The timer expires: the closed menu has the typed text as
  its search text. The menu is opened again: it still has it.
\<close>

theorem debounced_keystroke_survives_close:
  "(let s = run ex_env_extension
              [Settle 0 (Resolved (Some (ex_dataset ''A''))), Keystroke ''rev'', SetOpen False]
              (mount ex_env_extension ex_props)
    in isOpen (props s) = False \<and> searchInput s = [] \<and> timers s = [(1, ''rev'')])
   \<and> (let s = run ex_env_extension
              [Settle 0 (Resolved (Some (ex_dataset ''A''))), Keystroke ''rev'', SetOpen False,
               TimerFire 0]
              (mount ex_env_extension ex_props)
    in isOpen (props s) = False \<and> searchInput s = ''rev'')
   \<and> (let s = run ex_env_extension
              [Settle 0 (Resolved (Some (ex_dataset ''A''))), Keystroke ''rev'', SetOpen False,
               TimerFire 0, SetOpen True]
              (mount ex_env_extension ex_props)
    in isOpen (props s) = True \<and> searchInput s = ''rev'')"
  by code_simp

lemma searchInput_run_continuation [simp]:
  "searchInput (run_continuation out l s) = searchInput s"
proof (cases out)
  case (Resolved result)
  then show ?thesis
    by (cases result)
      (simp_all add: run_continuation_Resolved run_continuation_no_result finally_block_def
        catch_block_def)
next
  case (Rejected err)
  then show ?thesis
    by (simp add: run_continuation_Rejected finally_block_def catch_block_def)
qed

lemma searchInput_fold [simp]:
  "searchInput (fold (run_continuation out) ls s) = searchInput s"
  by (induction ls arbitrary: s) simp_all

lemma searchInput_load_effect [simp]: "searchInput (load_effect e s) = searchInput s"
  by (simp add: load_effect_def loadOptions_start_def callLoadDrillByOptions_def
      cachedSupersetGet_def Let_def split: option.splits prod.splits)

lemma searchInput_step:
  "\<not> is_TimerFire ev \<Longrightarrow>
     searchInput (step e ev s) = searchInput s \<or> searchInput (step e ev s) = []"
  by (cases ev) (simp_all add: rerender_def open_effect_def settle_def handleInput_def
      handleSelection_def closeModal_def Let_def)

lemma searchInput_run:
  "list_all (\<lambda>ev. \<not> is_TimerFire ev) evs \<Longrightarrow> searchInput s = [] \<Longrightarrow>
     searchInput (run e evs s) = []"
proof (induction evs arbitrary: s)
  case Nil
  then show ?case by simp
next
  case (Cons ev evs)
  then have "searchInput (step e ev s) = []"
    using searchInput_step [of ev e s] by auto
  with Cons show ?case by simp
qed

text \<open>
  What the effect on \<^verbatim>\<open>open\<close> achieves: closing the open submenu empties the search text
  and changes no timer, and the search text stays empty for as long as no debounce timer
  expires.
\<close>

lemma close_resets_search_until_timer_fires:
  assumes "isOpen (props s)" and "list_all (\<lambda>ev. \<not> is_TimerFire ev) evs"
  shows "searchInput (step e (SetOpen False) s) = []
       \<and> timers (step e (SetOpen False) s) = timers s
       \<and> searchInput (run e evs (step e (SetOpen False) s)) = []"
proof -
  have a: "searchInput (step e (SetOpen False) s) = []"
    and b: "timers (step e (SetOpen False) s) = timers s"
    using assms(1) by (simp_all add: rerender_def open_effect_def)
  from a assms(2) have "searchInput (run e evs (step e (SetOpen False) s)) = []"
    by (rule searchInput_run [rotated])
  with a b show ?thesis by simp
qed

section \<open>The dataset of the modal\<close>

text \<open>
  Claim C10. The claim asks that the dataset is defined whenever the modal is shown, as
  the non-null assertion on the dataset handed to the modal supposes. The \<^verbatim>\<open>try\<close> block
  stores \<^verbatim>\<open>json.result\<close> as the dataset before it reads the columns of the result. A
  first load commits its dataset and candidates; the anchor changes and the second load
  resolves with a response that has no result: the dataset is undefined again, the error is
  caught, and the candidates of the first load are still rendered. A click on one of these
  rows shows the modal, and the dataset handed to it is undefined.
\<close>

theorem modal_shown_without_dataset:
  "(let s = run ex_env_extension
              [Settle 0 (Resolved (Some (ex_dataset ''A''))),
               ChangeInputs (Some ex_anchorB) ex_formData None,
               Settle 1 (Resolved None)]
              (mount ex_env_extension ex_props)
    in dataset s = None \<and> errorLog s = [TypeError]
       \<and> rows_rendered ex_env_extension s = [ex_col ''region'', ex_col ''city''])
   \<and> (let s = run ex_env_extension
              [Settle 0 (Resolved (Some (ex_dataset ''A''))),
               ChangeInputs (Some ex_anchorB) ex_formData None,
               Settle 1 (Resolved None),
               ClickRow (ex_col ''region'')]
              (mount ex_env_extension ex_props)
    in showModal s \<and> dataset s = None
       \<and> map_option modal_dataset (modal_of (render ex_env_extension s)) = Some None)"
  by code_simp

end
